theory Spec2Isabelle
  imports Main
begin

section \<open>The ambient declarations of \<open>frontend/src/vite-env.d.ts\<close>\<close>

text \<open>
  The file holds a triple-slash reference to \<open>vite/client\<close> and two ambient interface
  declarations:
  \<^verbatim>\<open>
  /// <reference types="vite/client" />
  declare interface ImportMetaEnv {
    readonly VITE_API_URL?: string;
  }
  declare interface ImportMeta {
    readonly env: ImportMetaEnv;
  }
  \<close>
  It has no statements. What it says is said to the type checker, so the development
  below writes the declarations down as data and puts next to them the rules of the host
  language that the declarations are read by: which values an interface admits, how a
  property is read and written, how a member access is checked, how declarations of one
  name merge, and what a file contributes to execution.
\<close>

subsection \<open>Types and interface declarations\<close>

text \<open>
  The type expressions the declarations use are \<open>string\<close> and a reference to a named
  interface. \<open>boolean\<close>, \<open>number\<close>, \<open>undefined\<close> and \<open>any\<close> are there so that declarations
  of a referenced library can be written as well, and \<open>TFunction\<close> stands for the type of
  a method, whose parameters and result play no part here: nothing below calls one.
\<close>

datatype ty = TString | TBoolean | TNumber | TUndefined | TAny | TFunction | TRef string

text \<open>
  A property signature \<open>readonly name?: type\<close>: the two modifiers are flags.
\<close>

record member =
  m_name :: string
  m_readonly :: bool
  m_optional :: bool
  m_type :: ty

text \<open>
  One \<open>interface\<close> declaration: its name, its property signatures in source order, and
  its string index signature \<open>[key: string]: T\<close> when it has one.
\<close>

record iface =
  i_name :: string
  i_members :: "member list"
  i_index :: "ty option"

text \<open>Line 6: \<open>readonly VITE_API_URL?: string;\<close>\<close>

definition VITE_API_URL :: member where
  "VITE_API_URL =
     \<lparr>m_name = ''VITE_API_URL'', m_readonly = True, m_optional = True, m_type = TString\<rparr>"

text \<open>Lines 5 to 8: \<open>declare interface ImportMetaEnv { ... }\<close>\<close>

definition ImportMetaEnv :: iface where
  "ImportMetaEnv =
     \<lparr>i_name = ''ImportMetaEnv'', i_members = [VITE_API_URL], i_index = None\<rparr>"

text \<open>Line 11: \<open>readonly env: ImportMetaEnv;\<close>\<close>

definition env :: member where
  "env =
     \<lparr>m_name = ''env'', m_readonly = True, m_optional = False,
      m_type = TRef ''ImportMetaEnv''\<rparr>"

text \<open>Lines 10 to 12: \<open>declare interface ImportMeta { ... }\<close>\<close>

definition ImportMeta :: iface where
  "ImportMeta = \<lparr>i_name = ''ImportMeta'', i_members = [env], i_index = None\<rparr>"

subsection \<open>Values\<close>

text \<open>
  The values a property can hold at run time. An object is the list of its own
  properties; a lookup takes the first entry of a key. What an object inherits from a
  prototype is not part of a value: the objects here are plain records of data, as
  \<open>import.meta\<close> itself is, and no value is a function. Numbers stand in as integers,
  their arithmetic plays no part.
\<close>

datatype jsval =
    JUndefined
  | JNull
  | JBool bool
  | JNum int
  | JStr string
  | JObj "(string \<times> jsval) list"

datatype rt_error = TypeError string

text \<open>
  \<open>o.k\<close>: reading a property of \<open>undefined\<close> or \<open>null\<close> throws a TypeError, reading a
  key an object does not have gives \<open>undefined\<close>.
\<close>

fun get_prop :: "jsval \<Rightarrow> string \<Rightarrow> rt_error + jsval" where
  "get_prop JUndefined k = Inl (TypeError k)"
| "get_prop JNull k = Inl (TypeError k)"
| "get_prop (JObj kvs) k = (case map_of kvs k of None \<Rightarrow> Inr JUndefined | Some v \<Rightarrow> Inr v)"
| "get_prop v k = Inr JUndefined"

text \<open>
  \<open>o.k = v\<close> in module code, which is strict: writing a property of anything but an
  object throws. Nothing at run time knows of \<open>readonly\<close>.
\<close>

fun update_prop :: "(string \<times> jsval) list \<Rightarrow> string \<Rightarrow> jsval \<Rightarrow> (string \<times> jsval) list" where
  "update_prop [] k v = [(k, v)]"
| "update_prop ((k', v') # kvs) k v =
     (if k' = k then (k, v) # kvs else (k', v') # update_prop kvs k v)"

fun set_prop :: "jsval \<Rightarrow> string \<Rightarrow> jsval \<Rightarrow> rt_error + jsval" where
  "set_prop (JObj kvs) k v = Inr (JObj (update_prop kvs k v))"
| "set_prop w k v = Inl (TypeError k)"

subsection \<open>Which values an interface admits\<close>

text \<open>
  Under strict null checks \<open>undefined\<close> and \<open>null\<close> belong to no type but their own and
  \<open>any\<close>. An object belongs to an interface when every declared member is either
  missing and optional, or holds a value of the member's type (an optional member may
  also hold \<open>undefined\<close>), and every other property has the type of the index
  signature, if there is one. Properties the interface does not mention are allowed.
  \<open>props\<close> pairs each key of the object with the test "this property's value has
  type \<open>t\<close>".
\<close>

definition member_ok :: "(string \<times> (ty \<Rightarrow> bool)) list \<Rightarrow> member \<Rightarrow> bool" where
  "member_ok props m =
     (case map_of props (m_name m) of
        None \<Rightarrow> m_optional m
      | Some chk \<Rightarrow> chk (m_type m) \<or> (m_optional m \<and> chk TUndefined))"

definition index_ok :: "(string \<times> (ty \<Rightarrow> bool)) list \<Rightarrow> iface \<Rightarrow> bool" where
  "index_ok props d =
     (case i_index d of
        None \<Rightarrow> True
      | Some t \<Rightarrow>
          list_all
            (\<lambda>k. k \<in> set (map m_name (i_members d)) \<or>
                 (case map_of props k of None \<Rightarrow> True | Some chk \<Rightarrow> chk t))
            (map fst props))"

definition shape_ok :: "(string \<times> (ty \<Rightarrow> bool)) list \<Rightarrow> iface \<Rightarrow> bool" where
  "shape_ok props d = (list_all (member_ok props) (i_members d) \<and> index_ok props d)"

primrec has_type :: "(string \<Rightarrow> iface option) \<Rightarrow> jsval \<Rightarrow> ty \<Rightarrow> bool" where
  "has_type G JUndefined t = (t = TUndefined \<or> t = TAny)"
| "has_type G JNull t = (t = TAny)"
| "has_type G (JBool b) t = (t = TBoolean \<or> t = TAny)"
| "has_type G (JNum n) t = (t = TNumber \<or> t = TAny)"
| "has_type G (JStr s) t = (t = TString \<or> t = TAny)"
| "has_type G (JObj kvs) t =
     (case t of
        TAny \<Rightarrow> True
      | TRef n \<Rightarrow>
          (case G n of
             None \<Rightarrow> False
           | Some d \<Rightarrow> shape_ok (map (map_prod id (has_type G)) kvs) d)
      | _ \<Rightarrow> False)"

subsection \<open>Declaration merging\<close>

text \<open>
  All interface declarations of one name in a program denote one interface. A property
  may be declared again in a later declaration only with the same type and the same
  modifiers; inside one declaration a name may occur once. Two string index signatures
  are a conflict, and every member must fit the index signature: an index of type
  \<open>any\<close> takes every member, another one only members of that very type that cannot be
  \<open>undefined\<close>.
\<close>

datatype tc_error =
    CannotFindName string
  | PropertyDoesNotExist string string
  | ReadOnlyProperty string
  | PossiblyUndefined string
  | NotAssignable string
  | DuplicateIdentifier string
  | SubsequentPropertyType string
  | ModifiersDiffer string
  | DuplicateIndexSignature string
  | PropertyIndexMismatch string

definition lookup_member :: "iface \<Rightarrow> string \<Rightarrow> member option" where
  "lookup_member d k = find (\<lambda>m. m_name m = k) (i_members d)"

fun merge_members :: "member list \<Rightarrow> member list \<Rightarrow> tc_error + member list" where
  "merge_members ms [] = Inr ms"
| "merge_members ms (m # rest) =
     (case find (\<lambda>x. m_name x = m_name m) ms of
        None \<Rightarrow> merge_members (ms @ [m]) rest
      | Some x \<Rightarrow>
          if m_type x \<noteq> m_type m then Inl (SubsequentPropertyType (m_name m))
          else if m_readonly x \<noteq> m_readonly m \<or> m_optional x \<noteq> m_optional m
          then Inl (ModifiersDiffer (m_name m))
          else merge_members ms rest)"

definition index_admits :: "ty option \<Rightarrow> member \<Rightarrow> bool" where
  "index_admits ix m =
     (case ix of
        None \<Rightarrow> True
      | Some t \<Rightarrow> t = TAny \<or> m_type m = TAny \<or> (m_type m = t \<and> \<not> m_optional m))"

definition merge_iface :: "iface \<Rightarrow> iface \<Rightarrow> tc_error + iface" where
  "merge_iface a b =
     (if \<not> distinct (map m_name (i_members b)) then Inl (DuplicateIdentifier (i_name b))
      else if i_index a \<noteq> None \<and> i_index b \<noteq> None
      then Inl (DuplicateIndexSignature (i_name b))
      else
        (case merge_members (i_members a) (i_members b) of
           Inl e \<Rightarrow> Inl e
         | Inr ms \<Rightarrow>
             (let ix = (if i_index a = None then i_index b else i_index a) in
              case find (\<lambda>m. \<not> index_admits ix m) ms of
                Some m \<Rightarrow> Inl (PropertyIndexMismatch (m_name m))
              | None \<Rightarrow> Inr \<lparr>i_name = i_name a, i_members = ms, i_index = ix\<rparr>)))"

fun merge_all :: "iface \<Rightarrow> iface list \<Rightarrow> tc_error + iface" where
  "merge_all d [] = Inr d"
| "merge_all d (x # xs) =
     (case merge_iface d x of Inl e \<Rightarrow> Inl e | Inr d' \<Rightarrow> merge_all d' xs)"

text \<open>
  The interface a name denotes in a program with the declarations \<open>ds\<close>: the merge, in
  order, of all declarations of that name, starting from the empty interface.
\<close>

definition effective :: "iface list \<Rightarrow> string \<Rightarrow> tc_error + iface" where
  "effective ds n =
     (case filter (\<lambda>d. i_name d = n) ds of
        [] \<Rightarrow> Inl (CannotFindName n)
      | d # rest \<Rightarrow> merge_all \<lparr>i_name = n, i_members = [], i_index = None\<rparr> (d # rest))"

definition shapes :: "iface list \<Rightarrow> string \<Rightarrow> iface option" where
  "shapes ds n = (case effective ds n of Inl e \<Rightarrow> None | Inr d \<Rightarrow> Some d)"

subsection \<open>Checking an access to \<open>import.meta\<close>\<close>

text \<open>
  The host's standard library, which is part of every program, declares the global
  interface \<open>Object\<close>:
  \<^verbatim>\<open>
  interface Object {
    constructor: Function;
    toString(): string;
    toLocaleString(): string;
    valueOf(): Object;
    hasOwnProperty(v: PropertyKey): boolean;
    isPrototypeOf(v: Object): boolean;
    propertyIsEnumerable(v: PropertyKey): boolean;
  }
  \<close>
  Its members are members of every object type, for the checker.
\<close>

definition global_Object :: iface where
  "global_Object =
     \<lparr>i_name = ''Object'',
      i_members =
        [\<lparr>m_name = ''constructor'', m_readonly = False, m_optional = False,
          m_type = TRef ''Function''\<rparr>,
         \<lparr>m_name = ''toString'', m_readonly = False, m_optional = False, m_type = TFunction\<rparr>,
         \<lparr>m_name = ''toLocaleString'', m_readonly = False, m_optional = False,
          m_type = TFunction\<rparr>,
         \<lparr>m_name = ''valueOf'', m_readonly = False, m_optional = False, m_type = TFunction\<rparr>,
         \<lparr>m_name = ''hasOwnProperty'', m_readonly = False, m_optional = False,
          m_type = TFunction\<rparr>,
         \<lparr>m_name = ''isPrototypeOf'', m_readonly = False, m_optional = False,
          m_type = TFunction\<rparr>,
         \<lparr>m_name = ''propertyIsEnumerable'', m_readonly = False, m_optional = False,
          m_type = TFunction\<rparr>],
      i_index = None\<rparr>"

text \<open>
  The checker knows a property of an interface by its declaration, or else as a member
  of the global interface \<open>Object\<close>, or else by the index signature; a name that is none
  of these is rejected. The result of a read is the declared type together with the flag
  "may also be \<open>undefined\<close>", which is the member's optionality. The members that the
  host's global interfaces give to primitive values and to functions are not modelled:
  no statement below reaches them through the declarations of the file.
\<close>

definition check_read :: "iface \<Rightarrow> string \<Rightarrow> tc_error + ty \<times> bool" where
  "check_read d k =
     (case lookup_member d k of
        Some m \<Rightarrow> Inr (m_type m, m_optional m)
      | None \<Rightarrow>
          (case lookup_member global_Object k of
             Some m \<Rightarrow> Inr (m_type m, m_optional m)
           | None \<Rightarrow>
               (case i_index d of
                  Some t \<Rightarrow> Inr (t, False)
                | None \<Rightarrow> Inl (PropertyDoesNotExist k (i_name d)))))"

definition member_type :: "iface list \<Rightarrow> ty \<Rightarrow> string \<Rightarrow> tc_error + ty \<times> bool" where
  "member_type ds t k =
     (case t of
        TRef n \<Rightarrow> (case effective ds n of Inl e \<Rightarrow> Inl e | Inr d \<Rightarrow> check_read d k)
      | TAny \<Rightarrow> Inr (TAny, False)
      | TUndefined \<Rightarrow> Inl (PossiblyUndefined k)
      | _ \<Rightarrow> Inl (PropertyDoesNotExist k ''primitive''))"

text \<open>
  A write is rejected when the property is \<open>readonly\<close>, whatever is written; otherwise
  the value written must have the property's type. The values here are data, none of
  them is a function, so nothing can be written to a method of \<open>Object\<close>.
\<close>

definition check_write :: "iface list \<Rightarrow> iface \<Rightarrow> string \<Rightarrow> jsval \<Rightarrow> tc_error + ty \<times> bool" where
  "check_write ds d k v =
     (case lookup_member d k of
        Some m \<Rightarrow>
          if m_readonly m then Inl (ReadOnlyProperty k)
          else if has_type (shapes ds) v (m_type m) \<or> (m_optional m \<and> v = JUndefined)
          then Inr (m_type m, m_optional m)
          else Inl (NotAssignable k)
      | None \<Rightarrow>
          (case lookup_member global_Object k of
             Some m \<Rightarrow>
               if has_type (shapes ds) v (m_type m) then Inr (m_type m, m_optional m)
               else Inl (NotAssignable k)
           | None \<Rightarrow>
               (case i_index d of
                  Some t \<Rightarrow>
                    if has_type (shapes ds) v t then Inr (t, False) else Inl (NotAssignable k)
                | None \<Rightarrow> Inl (PropertyDoesNotExist k (i_name d)))))"

definition assign_type :: "iface list \<Rightarrow> ty \<Rightarrow> string \<Rightarrow> jsval \<Rightarrow> tc_error + ty \<times> bool" where
  "assign_type ds t k v =
     (case t of
        TRef n \<Rightarrow> (case effective ds n of Inl e \<Rightarrow> Inl e | Inr d \<Rightarrow> check_write ds d k v)
      | TAny \<Rightarrow> Inr (TAny, False)
      | TUndefined \<Rightarrow> Inl (PossiblyUndefined k)
      | _ \<Rightarrow> Inl (PropertyDoesNotExist k ''primitive''))"

text \<open>
  What a consumer of the configuration can do with it: read \<open>import.meta.k\<close>, read
  \<open>import.meta.env.k\<close>, try to write either, and, as the one effect that is not on
  \<open>import.meta\<close>, print a line. The expression \<open>import.meta\<close> has the type of the
  global interface \<open>ImportMeta\<close>.
\<close>

datatype stmt =
    GetMeta string
  | GetEnv string
  | SetMeta string jsval
  | SetEnv string jsval
  | Log string

fun check_stmt :: "iface list \<Rightarrow> stmt \<Rightarrow> tc_error + ty \<times> bool" where
  "check_stmt ds (GetMeta k) = member_type ds (TRef ''ImportMeta'') k"
| "check_stmt ds (GetEnv k) =
     (case member_type ds (TRef ''ImportMeta'') ''env'' of
        Inl e \<Rightarrow> Inl e
      | Inr (t, opt) \<Rightarrow> if opt then Inl (PossiblyUndefined ''env'') else member_type ds t k)"
| "check_stmt ds (SetMeta k v) = assign_type ds (TRef ''ImportMeta'') k v"
| "check_stmt ds (SetEnv k v) =
     (case member_type ds (TRef ''ImportMeta'') ''env'' of
        Inl e \<Rightarrow> Inl e
      | Inr (t, opt) \<Rightarrow> if opt then Inl (PossiblyUndefined ''env'') else assign_type ds t k v)"
| "check_stmt ds (Log msg) = Inr (TUndefined, False)"

subsection \<open>Execution\<close>

text \<open>
  The state a statement runs in: the object \<open>import.meta\<close> and what has been printed.
  A statement gives its value, or the error it throws, and the state after it.
\<close>

record rt_state =
  import_meta :: jsval
  console :: "string list"

fun exec :: "stmt \<Rightarrow> rt_state \<Rightarrow> (rt_error + jsval) \<times> rt_state" where
  "exec (GetMeta k) s = (get_prop (import_meta s) k, s)"
| "exec (GetEnv k) s =
     (case get_prop (import_meta s) ''env'' of
        Inl e \<Rightarrow> (Inl e, s)
      | Inr e \<Rightarrow> (get_prop e k, s))"
| "exec (SetMeta k v) s =
     (case set_prop (import_meta s) k v of
        Inl e \<Rightarrow> (Inl e, s)
      | Inr m \<Rightarrow> (Inr v, s\<lparr>import_meta := m\<rparr>))"
| "exec (SetEnv k v) s =
     (case get_prop (import_meta s) ''env'' of
        Inl e \<Rightarrow> (Inl e, s)
      | Inr e \<Rightarrow>
          (case set_prop e k v of
             Inl err \<Rightarrow> (Inl err, s)
           | Inr e' \<Rightarrow>
               (case set_prop (import_meta s) ''env'' e' of
                  Inl err \<Rightarrow> (Inl err, s)
                | Inr m \<Rightarrow> (Inr v, s\<lparr>import_meta := m\<rparr>))))"
| "exec (Log msg) s = (Inr JUndefined, s\<lparr>console := console s @ [msg]\<rparr>)"

text \<open>Statements run in order; an error that is thrown ends the run.\<close>

fun run :: "stmt list \<Rightarrow> rt_state \<Rightarrow> rt_error option \<times> rt_state" where
  "run [] s = (None, s)"
| "run (st # rest) s =
     (case exec st s of
        (Inl e, s') \<Rightarrow> (Some e, s')
      | (Inr v, s') \<Rightarrow> run rest s')"

subsection \<open>The file\<close>

text \<open>
  A source file is a list of items: references to type libraries, interface
  declarations, statements. Comments are left out.
\<close>

datatype item = Reference string | Interface iface | Statement stmt

definition vite_env_d_ts :: "item list" where
  "vite_env_d_ts = [Reference ''vite/client'', Interface ImportMetaEnv, Interface ImportMeta]"

text \<open>
  The declarations a file brings into a program. A reference brings in the declarations
  of the library it names; \<open>libs\<close> resolves a name to them, and to \<open>None\<close> when the
  library is not loaded, which is the case the file's comment provides for. The contents
  of \<open>vite/client\<close> are not part of this repository, so they stay a parameter.
\<close>

fun item_decls :: "(string \<Rightarrow> iface list option) \<Rightarrow> item \<Rightarrow> iface list" where
  "item_decls libs (Reference n) = (case libs n of None \<Rightarrow> [] | Some ds \<Rightarrow> ds)"
| "item_decls libs (Interface d) = [d]"
| "item_decls libs (Statement st) = []"

definition program :: "(string \<Rightarrow> iface list option) \<Rightarrow> item list \<Rightarrow> iface list" where
  "program libs f = concat (map (item_decls libs) f)"

text \<open>The declarations of the file alone.\<close>

definition declared :: "item list \<Rightarrow> iface list" where
  "declared f = program (\<lambda>n. None) f"

text \<open>
  What a file contributes to execution: declarations and references are erased, only
  statements remain.
\<close>

fun item_code :: "item \<Rightarrow> stmt list" where
  "item_code (Reference n) = []"
| "item_code (Interface d) = []"
| "item_code (Statement st) = [st]"

definition emit :: "item list \<Rightarrow> stmt list" where
  "emit f = concat (map item_code f)"

section \<open>Facts about the declarations of the file\<close>

lemma declared_file: "declared vite_env_d_ts = [ImportMetaEnv, ImportMeta]"
  by (simp add: declared_def program_def vite_env_d_ts_def)

lemma merge_empty_ImportMetaEnv:
  "merge_iface \<lparr>i_name = ''ImportMetaEnv'', i_members = [], i_index = None\<rparr> ImportMetaEnv = Inr ImportMetaEnv"
  by (simp add: merge_iface_def ImportMetaEnv_def VITE_API_URL_def index_admits_def)

lemma merge_empty_ImportMeta:
  "merge_iface \<lparr>i_name = ''ImportMeta'', i_members = [], i_index = None\<rparr> ImportMeta = Inr ImportMeta"
  by (simp add: merge_iface_def ImportMeta_def env_def index_admits_def)

lemma name_ImportMetaEnv: "i_name ImportMetaEnv = ''ImportMetaEnv''"
  by (simp add: ImportMetaEnv_def)

lemma name_ImportMeta: "i_name ImportMeta = ''ImportMeta''"
  by (simp add: ImportMeta_def)

lemma effective_file:
  "effective (declared vite_env_d_ts) n =
     (if n = ''ImportMetaEnv'' then Inr ImportMetaEnv
      else if n = ''ImportMeta'' then Inr ImportMeta
      else Inl (CannotFindName n))"
  by (auto simp add: declared_file effective_def name_ImportMetaEnv name_ImportMeta
        merge_empty_ImportMetaEnv merge_empty_ImportMeta)

lemma shapes_file:
  "shapes (declared vite_env_d_ts) n =
     (if n = ''ImportMetaEnv'' then Some ImportMetaEnv
      else if n = ''ImportMeta'' then Some ImportMeta
      else None)"
  by (simp add: shapes_def effective_file)


lemma map_of_map_prod_id:
  "map_of (map (map_prod id f) kvs) k = map_option f (map_of kvs k)"
  by (induction kvs) auto

lemma has_type_ImportMetaEnv_iff:
  "has_type (shapes (declared vite_env_d_ts)) v (TRef ''ImportMetaEnv'') =
     (\<exists>kvs. v = JObj kvs \<and>
        (case map_of kvs ''VITE_API_URL'' of None \<Rightarrow> True
         | Some x \<Rightarrow> x = JUndefined \<or> (\<exists>s. x = JStr s)))"
proof (cases v)
  case (JObj kvs)
  have "has_type (shapes (declared vite_env_d_ts)) (JObj kvs) (TRef ''ImportMetaEnv'') =
        (case map_of kvs ''VITE_API_URL'' of None \<Rightarrow> True
         | Some x \<Rightarrow> has_type (shapes (declared vite_env_d_ts)) x TString
                    \<or> has_type (shapes (declared vite_env_d_ts)) x TUndefined)"
    by (simp add: shapes_file shape_ok_def index_ok_def ImportMetaEnv_def VITE_API_URL_def
          member_ok_def map_of_map_prod_id split: option.splits)
  also have "\<dots> = (case map_of kvs ''VITE_API_URL'' of None \<Rightarrow> True
         | Some x \<Rightarrow> x = JUndefined \<or> (\<exists>s. x = JStr s))"
  proof (cases "map_of kvs ''VITE_API_URL''")
    case None
    then show ?thesis by simp
  next
    case (Some x)
    then show ?thesis by (cases x) auto
  qed
  finally show ?thesis using JObj by simp
qed simp_all

lemma has_type_ImportMeta_iff:
  "has_type (shapes (declared vite_env_d_ts)) v (TRef ''ImportMeta'') =
     (\<exists>kvs e. v = JObj kvs \<and> map_of kvs ''env'' = Some e \<and>
        has_type (shapes (declared vite_env_d_ts)) e (TRef ''ImportMetaEnv''))"
proof (cases v)
  case (JObj kvs)
  then show ?thesis
    by (simp add: shapes_file shape_ok_def index_ok_def ImportMeta_def env_def
          member_ok_def map_of_map_prod_id split: option.splits)
qed simp_all

lemma lookup_ImportMetaEnv:
  "lookup_member ImportMetaEnv k = (if k = ''VITE_API_URL'' then Some VITE_API_URL else None)"
  by (simp add: lookup_member_def ImportMetaEnv_def VITE_API_URL_def)

lemma lookup_ImportMeta:
  "lookup_member ImportMeta k = (if k = ''env'' then Some env else None)"
  by (simp add: lookup_member_def ImportMeta_def env_def)

lemma lookup_global_Object:
  "lookup_member global_Object k =
     (if k = ''constructor''
      then Some \<lparr>m_name = ''constructor'', m_readonly = False, m_optional = False,
                 m_type = TRef ''Function''\<rparr>
      else if k \<in> {''toString'', ''toLocaleString'', ''valueOf'', ''hasOwnProperty'',
                    ''isPrototypeOf'', ''propertyIsEnumerable''}
      then Some \<lparr>m_name = k, m_readonly = False, m_optional = False, m_type = TFunction\<rparr>
      else None)"
  by (simp add: lookup_member_def global_Object_def)

lemma lookup_global_Object_None:
  "(lookup_member global_Object k = None) = (k \<notin> set (map m_name (i_members global_Object)))"
  by (auto simp: lookup_member_def find_None_iff)

lemma check_read_VITE_API_URL: "check_read ImportMetaEnv ''VITE_API_URL'' = Inr (TString, True)"
  by (simp add: check_read_def lookup_ImportMetaEnv) (simp add: VITE_API_URL_def)

lemma check_read_env: "check_read ImportMeta ''env'' = Inr (TRef ''ImportMetaEnv'', False)"
  by (simp add: check_read_def lookup_ImportMeta) (simp add: env_def)

lemma check_read_ImportMetaEnv_other:
  assumes "k \<noteq> ''VITE_API_URL''" and "k \<notin> set (map m_name (i_members global_Object))"
  shows "check_read ImportMetaEnv k = Inl (PropertyDoesNotExist k ''ImportMetaEnv'')"
proof -
  from assms(2) have "lookup_member global_Object k = None"
    by (simp add: lookup_global_Object_None)
  with assms(1) show ?thesis
    by (simp add: check_read_def lookup_ImportMetaEnv) (simp add: ImportMetaEnv_def)
qed

lemma no_data_is_a_function:
  "\<not> has_type (shapes (declared vite_env_d_ts)) v TFunction"
  "\<not> has_type (shapes (declared vite_env_d_ts)) v (TRef ''Function'')"
  by (cases v; simp add: shapes_file)+

lemma write_to_Object_member:
  assumes "lookup_member global_Object k = Some m"
  shows "\<not> has_type (shapes (declared vite_env_d_ts)) v (m_type m)"
proof -
  from assms have "m_type m = TFunction \<or> m_type m = TRef ''Function''"
    by (auto simp: lookup_global_Object split: if_splits)
  then show ?thesis using no_data_is_a_function by metis
qed

lemma check_GetEnv_file:
  "check_stmt (declared vite_env_d_ts) (GetEnv k) = check_read ImportMetaEnv k"
  by (simp add: member_type_def effective_file check_read_env)

lemma check_GetMeta_file:
  "check_stmt (declared vite_env_d_ts) (GetMeta k) = check_read ImportMeta k"
  by (simp add: member_type_def effective_file)

lemma check_write_ImportMeta:
  "check_write (declared vite_env_d_ts) ImportMeta k v =
     (if k = ''env'' then Inl (ReadOnlyProperty k)
      else if lookup_member global_Object k = None
      then Inl (PropertyDoesNotExist k ''ImportMeta'')
      else Inl (NotAssignable k))"
proof (cases "lookup_member global_Object k")
  case None
  then show ?thesis
    by (simp add: check_write_def lookup_ImportMeta) (simp add: ImportMeta_def env_def)
next
  case (Some m)
  with write_to_Object_member [OF Some, of v] show ?thesis
    by (simp add: check_write_def lookup_ImportMeta) (simp add: env_def)
qed

lemma check_write_ImportMetaEnv:
  "check_write (declared vite_env_d_ts) ImportMetaEnv k v =
     (if k = ''VITE_API_URL'' then Inl (ReadOnlyProperty k)
      else if lookup_member global_Object k = None
      then Inl (PropertyDoesNotExist k ''ImportMetaEnv'')
      else Inl (NotAssignable k))"
proof (cases "lookup_member global_Object k")
  case None
  then show ?thesis
    by (simp add: check_write_def lookup_ImportMetaEnv)
       (simp add: ImportMetaEnv_def VITE_API_URL_def)
next
  case (Some m)
  with write_to_Object_member [OF Some, of v] show ?thesis
    by (simp add: check_write_def lookup_ImportMetaEnv) (simp add: VITE_API_URL_def)
qed

lemma check_SetMeta_file:
  "check_stmt (declared vite_env_d_ts) (SetMeta k v) =
     (if k = ''env'' then Inl (ReadOnlyProperty k)
      else if lookup_member global_Object k = None
      then Inl (PropertyDoesNotExist k ''ImportMeta'')
      else Inl (NotAssignable k))"
  by (simp add: assign_type_def effective_file check_write_ImportMeta)

lemma check_SetEnv_file:
  "check_stmt (declared vite_env_d_ts) (SetEnv k v) =
     (if k = ''VITE_API_URL'' then Inl (ReadOnlyProperty k)
      else if lookup_member global_Object k = None
      then Inl (PropertyDoesNotExist k ''ImportMetaEnv'')
      else Inl (NotAssignable k))"
  by (simp add: member_type_def assign_type_def effective_file check_read_env
        check_write_ImportMetaEnv)

lemma accepted_is_read:
  assumes "check_stmt (declared vite_env_d_ts) st = Inr r"
  shows "(\<exists>k. st = GetMeta k) \<or> (\<exists>k. st = GetEnv k) \<or> (\<exists>msg. st = Log msg)"
proof (cases st)
  case (SetMeta k v)
  have "check_stmt (declared vite_env_d_ts) (SetMeta k v) \<noteq> Inr r"
    unfolding check_SetMeta_file by simp
  with assms SetMeta show ?thesis by simp
next
  case (SetEnv k v)
  have "check_stmt (declared vite_env_d_ts) (SetEnv k v) \<noteq> Inr r"
    unfolding check_SetEnv_file by simp
  with assms SetEnv show ?thesis by simp
qed simp_all


lemma accepted_keeps_import_meta:
  assumes "check_stmt (declared vite_env_d_ts) st = Inr r"
  shows "import_meta (snd (exec st s)) = import_meta s"
  using accepted_is_read [OF assms] by (auto split: sum.splits)


lemma merge_all_append:
  "merge_all d (xs @ ys) = (case merge_all d xs of Inl e \<Rightarrow> Inl e | Inr d' \<Rightarrow> merge_all d' ys)"
  by (induction xs arbitrary: d) (auto split: sum.splits)

lemma program_file:
  "program libs vite_env_d_ts =
     (case libs ''vite/client'' of None \<Rightarrow> [] | Some ds \<Rightarrow> ds) @ [ImportMetaEnv, ImportMeta]"
  by (simp add: program_def vite_env_d_ts_def)

lemma effective_with_library:
  assumes "effective lib ''ImportMetaEnv'' = Inr tool"
  shows "effective (lib @ [ImportMetaEnv, ImportMeta]) ''ImportMetaEnv'' = merge_iface tool ImportMetaEnv"
proof -
  let ?e = "\<lparr>i_name = ''ImportMetaEnv'', i_members = [], i_index = None\<rparr>"
  let ?fs = "filter (\<lambda>d. i_name d = ''ImportMetaEnv'') lib"
  from assms have ne: "?fs \<noteq> []" and m: "merge_all ?e ?fs = Inr tool"
    by (auto simp: effective_def split: list.splits)
  have "effective (lib @ [ImportMetaEnv, ImportMeta]) ''ImportMetaEnv'' = merge_all ?e (?fs @ [ImportMetaEnv])"
    using ne by (simp add: effective_def name_ImportMetaEnv name_ImportMeta split: list.splits)
  also have "\<dots> = merge_iface tool ImportMetaEnv"
    by (simp add: merge_all_append m split: sum.splits)
  finally show ?thesis .
qed

lemma member_eqI:
  fixes x y :: member
  assumes "m_name x = m_name y" "m_readonly x = m_readonly y" "m_optional x = m_optional y"
    "m_type x = m_type y"
  shows "x = y"
  using assms by simp

lemma merge_members_found:
  assumes "find (\<lambda>x. m_name x = m_name m) ms = Some x" and "merge_members ms [m] = Inr ms'"
  shows "x = m" and "ms' = ms" and "x \<in> set ms"
proof -
  from assms(1) have n: "m_name x = m_name m" and "x \<in> set ms"
    by (auto simp: find_Some_iff)
  then show "x \<in> set ms" by simp
  from assms have "m_type x = m_type m" "m_readonly x = m_readonly m"
    "m_optional x = m_optional m" "ms' = ms"
    by (auto split: if_splits)
  with n show "x = m" and "ms' = ms" by (auto intro: member_eqI)
qed

lemma find_append_new:
  assumes "find P ms = None" and "P m"
  shows "find P (ms @ [m]) = Some m"
  using assms by (induction ms) (auto split: if_splits)

lemma merge_members_single:
  assumes "merge_members ms [m] = Inr ms'"
  shows "set ms' = insert m (set ms)" and "find (\<lambda>x. m_name x = m_name m) ms' = Some m"
proof -
  show "set ms' = insert m (set ms)"
  proof (cases "find (\<lambda>x. m_name x = m_name m) ms")
    case None
    with assms show ?thesis by auto
  next
    case (Some x)
    from merge_members_found [OF Some assms] show ?thesis by auto
  qed
  show "find (\<lambda>x. m_name x = m_name m) ms' = Some m"
  proof (cases "find (\<lambda>x. m_name x = m_name m) ms")
    case None
    with assms have "ms' = ms @ [m]" by simp
    with find_append_new [OF None] show ?thesis by simp
  next
    case (Some x)
    from merge_members_found [OF Some assms] Some show ?thesis by simp
  qed
qed

lemma merge_with_ImportMetaEnv:
  assumes "merge_iface tool ImportMetaEnv = Inr d"
  shows "set (i_members d) = insert VITE_API_URL (set (i_members tool))"
    and "lookup_member d ''VITE_API_URL'' = Some VITE_API_URL"
    and "i_index d = i_index tool"
proof -
  from assms obtain ms where ms: "merge_members (i_members tool) [VITE_API_URL] = Inr ms"
    and d: "d = \<lparr>i_name = i_name tool, i_members = ms, i_index = i_index tool\<rparr>"
    by (auto simp: merge_iface_def ImportMetaEnv_def Let_def split: sum.splits option.splits if_splits)
  from merge_members_single(1) [OF ms] d
  show "set (i_members d) = insert VITE_API_URL (set (i_members tool))" by simp
  from merge_members_single(2) [OF ms] d
  show "lookup_member d ''VITE_API_URL'' = Some VITE_API_URL"
    by (simp add: lookup_member_def VITE_API_URL_def)
  from d show "i_index d = i_index tool" by simp
qed

lemma check_read_open:
  assumes "i_index d = Some t"
  shows "\<exists>r. check_read d k = Inr r"
  using assms by (auto simp add: check_read_def split: option.splits)

lemma merge_self_ImportMetaEnv: "merge_iface ImportMetaEnv ImportMetaEnv = Inr ImportMetaEnv"
  by (simp add: merge_iface_def ImportMetaEnv_def VITE_API_URL_def index_admits_def)

lemma merge_self_ImportMeta: "merge_iface ImportMeta ImportMeta = Inr ImportMeta"
  by (simp add: merge_iface_def ImportMeta_def env_def index_admits_def)

lemma effective_twice:
  "effective (declared vite_env_d_ts @ declared vite_env_d_ts) n = effective (declared vite_env_d_ts) n"
  by (simp add: effective_file)
     (simp add: declared_file effective_def name_ImportMetaEnv name_ImportMeta
        merge_empty_ImportMetaEnv merge_empty_ImportMeta merge_self_ImportMetaEnv
        merge_self_ImportMeta)

subsection \<open>With a library loaded\<close>

lemma effective_program_ImportMetaEnv:
  assumes "effective (program libs vite_env_d_ts) ''ImportMetaEnv'' = Inr d"
  shows "\<exists>tool. merge_iface tool ImportMetaEnv = Inr d"
proof -
  let ?e = "\<lparr>i_name = ''ImportMetaEnv'', i_members = [], i_index = None\<rparr>"
  obtain lib where p: "program libs vite_env_d_ts = lib @ [ImportMetaEnv, ImportMeta]"
    by (simp add: program_file)
  let ?fs = "filter (\<lambda>x. i_name x = ''ImportMetaEnv'') lib"
  have "effective (lib @ [ImportMetaEnv, ImportMeta]) ''ImportMetaEnv''
        = merge_all ?e (?fs @ [ImportMetaEnv])"
    by (cases ?fs) (simp_all add: effective_def name_ImportMetaEnv name_ImportMeta)
  with assms p have "merge_all ?e (?fs @ [ImportMetaEnv]) = Inr d" by simp
  then show ?thesis
    by (auto simp: merge_all_append split: sum.splits)
qed

text \<open>
  The typing of \<open>VITE_API_URL\<close> does not depend on the library: whatever the reference
  resolves to, a value admitted by the interface that \<open>ImportMetaEnv\<close> denotes in the
  program holds a string or \<open>undefined\<close> under that key, or does not have the key.
\<close>

lemma library_keeps_VITE_API_URL_typed:
  assumes "has_type (shapes (program libs vite_env_d_ts)) e (TRef ''ImportMetaEnv'')"
  shows "\<exists>kvs. e = JObj kvs \<and>
           (case map_of kvs ''VITE_API_URL'' of
              None \<Rightarrow> get_prop e ''VITE_API_URL'' = Inr JUndefined
            | Some x \<Rightarrow> get_prop e ''VITE_API_URL'' = Inr x \<and>
                         (x = JUndefined \<or> (\<exists>str. x = JStr str)))"
proof (cases e)
  case (JObj kvs)
  let ?G = "shapes (program libs vite_env_d_ts)"
  from assms JObj obtain d where d: "?G ''ImportMetaEnv'' = Some d"
    and ok: "shape_ok (map (map_prod id (has_type ?G)) kvs) d"
    by (auto split: option.splits)
  from d have "effective (program libs vite_env_d_ts) ''ImportMetaEnv'' = Inr d"
    by (simp add: shapes_def split: sum.splits)
  then obtain tool where "merge_iface tool ImportMetaEnv = Inr d"
    using effective_program_ImportMetaEnv by blast
  then have "VITE_API_URL \<in> set (i_members d)"
    using merge_with_ImportMetaEnv(1) by blast
  with ok have "member_ok (map (map_prod id (has_type ?G)) kvs) VITE_API_URL"
    by (simp add: shape_ok_def list_all_iff)
  then have "case map_of kvs ''VITE_API_URL'' of None \<Rightarrow> True
     | Some x \<Rightarrow> has_type ?G x TString \<or> has_type ?G x TUndefined"
    by (simp add: member_ok_def VITE_API_URL_def map_of_map_prod_id split: option.splits)
  then have "case map_of kvs ''VITE_API_URL'' of None \<Rightarrow> True
     | Some x \<Rightarrow> x = JUndefined \<or> (\<exists>str. x = JStr str)"
  proof (cases "map_of kvs ''VITE_API_URL''")
    case None
    then show ?thesis by simp
  next
    case (Some x)
    assume "case map_of kvs ''VITE_API_URL'' of None \<Rightarrow> True
     | Some x \<Rightarrow> has_type ?G x TString \<or> has_type ?G x TUndefined"
    with Some show ?thesis by (cases x) auto
  qed
  with JObj show ?thesis by (simp split: option.splits)
next
  case JUndefined with assms show ?thesis by simp
next
  case JNull with assms show ?thesis by simp
next
  case (JBool b) with assms show ?thesis by simp
next
  case (JNum n) with assms show ?thesis by simp
next
  case (JStr s) with assms show ?thesis by simp
qed

text \<open>
  With a library loaded the checker accepts keys the file does not declare: here the
  library's interface has the member \<open>MODE\<close> and the index signature
  \<open>[key: string]: any\<close>.
\<close>

lemma library_keys_are_accepted:
  "check_stmt
     (program
        (\<lambda>n. if n = ''vite/client'' then
           Some [\<lparr>i_name = ''ImportMetaEnv'',
              i_members =
                [\<lparr>m_name = ''MODE'', m_readonly = False, m_optional = False, m_type = TString\<rparr>],
              i_index = Some TAny\<rparr>]
         else None)
        vite_env_d_ts) (GetEnv k)
   = (if k = ''MODE'' then Inr (TString, False)
      else if k = ''VITE_API_URL'' then Inr (TString, True)
      else case lookup_member global_Object k of
             Some m \<Rightarrow> Inr (m_type m, m_optional m)
           | None \<Rightarrow> Inr (TAny, False))"
  by (simp add: program_file effective_def merge_iface_def index_admits_def Let_def
        ImportMetaEnv_def ImportMeta_def VITE_API_URL_def env_def member_type_def
        check_read_def lookup_member_def split: option.splits)

subsection \<open>The rules tell values, statements and files apart\<close>

lemma number_is_not_admitted:
  "\<not> has_type (shapes (declared vite_env_d_ts)) (JObj [(''VITE_API_URL'', JNum 8000)])
       (TRef ''ImportMetaEnv'')"
  unfolding has_type_ImportMetaEnv_iff by simp

lemma missing_env_is_not_admitted:
  "\<not> has_type (shapes (declared vite_env_d_ts)) (JObj []) (TRef ''ImportMeta'')"
  unfolding has_type_ImportMeta_iff by simp

lemma unchecked_write_changes_import_meta:
  "exec (SetEnv ''VITE_API_URL'' (JNum 8000))
     \<lparr>import_meta = JObj [(''env'', JObj [(''VITE_API_URL'', JStr ''/api'')])], console = []\<rparr>
   = (Inr (JNum 8000),
      \<lparr>import_meta = JObj [(''env'', JObj [(''VITE_API_URL'', JNum 8000)])], console = []\<rparr>)"
  by simp

lemma statement_is_emitted_and_runs:
  "run (emit (vite_env_d_ts @ [Statement (Log ''ready'')])) \<lparr>import_meta = m, console = []\<rparr>
   = (None, \<lparr>import_meta = m, console = [''ready'']\<rparr>)"
  by (simp add: emit_def vite_env_d_ts_def)

section \<open>The properties claimed of the file\<close>

text \<open>
  Claim C1. Take any value that the declared shape \<open>ImportMetaEnv\<close> admits. It is an
  object, and reading \<open>VITE_API_URL\<close> from it gives \<open>undefined\<close> when the key is unset
  (nothing is put in its place), and otherwise exactly the stored value, which is a
  string or \<open>undefined\<close> and nothing else. The checker gives the read the type
  \<open>string\<close>, possibly \<open>undefined\<close>.
\<close>

theorem reading_VITE_API_URL:
  assumes "has_type (shapes (declared vite_env_d_ts)) e (TRef ''ImportMetaEnv'')"
  shows "(\<exists>kvs. e = JObj kvs \<and>
            (case map_of kvs ''VITE_API_URL'' of
               None \<Rightarrow> get_prop e ''VITE_API_URL'' = Inr JUndefined
             | Some x \<Rightarrow> get_prop e ''VITE_API_URL'' = Inr x \<and>
                          (x = JUndefined \<or> (\<exists>str. x = JStr str))))
       \<and> check_stmt (declared vite_env_d_ts) (GetEnv ''VITE_API_URL'') = Inr (TString, True)"
proof -
  from assms obtain kvs where e: "e = JObj kvs"
    and v: "case map_of kvs ''VITE_API_URL'' of None \<Rightarrow> True
            | Some x \<Rightarrow> x = JUndefined \<or> (\<exists>str. x = JStr str)"
    unfolding has_type_ImportMetaEnv_iff by blast
  from v have "case map_of kvs ''VITE_API_URL'' of
               None \<Rightarrow> get_prop (JObj kvs) ''VITE_API_URL'' = Inr JUndefined
             | Some x \<Rightarrow> get_prop (JObj kvs) ''VITE_API_URL'' = Inr x \<and>
                          (x = JUndefined \<or> (\<exists>str. x = JStr str))"
    by (simp split: option.splits)
  with e have "\<exists>kvs. e = JObj kvs \<and>
            (case map_of kvs ''VITE_API_URL'' of
               None \<Rightarrow> get_prop e ''VITE_API_URL'' = Inr JUndefined
             | Some x \<Rightarrow> get_prop e ''VITE_API_URL'' = Inr x \<and>
                          (x = JUndefined \<or> (\<exists>str. x = JStr str)))"
    by blast
  moreover have "check_stmt (declared vite_env_d_ts) (GetEnv ''VITE_API_URL'') = Inr (TString, True)"
    unfolding check_GetEnv_file by (simp add: check_read_VITE_API_URL)
  ultimately show ?thesis by blast
qed

theorem reading_VITE_API_URL_witness:
  "has_type (shapes (declared vite_env_d_ts))
     (JObj [(''VITE_API_URL'', JStr ''http://localhost:2024'')]) (TRef ''ImportMetaEnv'')
   \<and> get_prop (JObj [(''VITE_API_URL'', JStr ''http://localhost:2024'')]) ''VITE_API_URL''
       = Inr (JStr ''http://localhost:2024'')
   \<and> has_type (shapes (declared vite_env_d_ts)) (JObj []) (TRef ''ImportMetaEnv'')
   \<and> get_prop (JObj []) ''VITE_API_URL'' = Inr JUndefined"
proof -
  have a: "has_type (shapes (declared vite_env_d_ts))
     (JObj [(''VITE_API_URL'', JStr ''http://localhost:2024'')]) (TRef ''ImportMetaEnv'')"
    by (simp add: shapes_file shape_ok_def index_ok_def member_ok_def ImportMetaEnv_def
          VITE_API_URL_def)
  have b: "has_type (shapes (declared vite_env_d_ts)) (JObj []) (TRef ''ImportMetaEnv'')"
    by (simp add: shapes_file shape_ok_def index_ok_def member_ok_def ImportMetaEnv_def
          VITE_API_URL_def)
  from reading_VITE_API_URL [OF a] reading_VITE_API_URL [OF b] a b show ?thesis by simp
qed

text \<open>
  Claim C2. The shape this file declares under the name \<open>ImportMetaEnv\<close> has exactly one
  key, \<open>VITE_API_URL\<close>, which is optional and of type \<open>string\<close>; it has no index
  signature, and no other key is a member of it.
\<close>

theorem one_recognised_key:
  "effective (declared vite_env_d_ts) ''ImportMetaEnv'' = Inr ImportMetaEnv
   \<and> map m_name (i_members ImportMetaEnv) = [''VITE_API_URL'']
   \<and> i_index ImportMetaEnv = None
   \<and> (\<forall>k. (lookup_member ImportMetaEnv k = None) = (k \<noteq> ''VITE_API_URL''))
   \<and> (\<exists>m. lookup_member ImportMetaEnv ''VITE_API_URL'' = Some m \<and> m_optional m
            \<and> m_type m = TString)"
  by (simp add: effective_file lookup_ImportMetaEnv)
     (simp add: ImportMetaEnv_def VITE_API_URL_def)

text \<open>
  Claim C3, as stated: for every key other than \<open>VITE_API_URL\<close> the checker rejects the
  access. It does not. \<open>toString\<close> is not \<open>VITE_API_URL\<close> and the declared shape has no
  such member, yet \<open>import.meta.env.toString\<close> is accepted with the declarations of the
  file alone: every object type has the members of the global interface \<open>Object\<close>.
\<close>

theorem toString_is_accepted:
  "''toString'' \<noteq> ''VITE_API_URL''
   \<and> lookup_member ImportMetaEnv ''toString'' = None
   \<and> check_stmt (declared vite_env_d_ts) (GetEnv ''toString'') = Inr (TFunction, False)"
proof -
  have "check_read ImportMetaEnv ''toString'' = Inr (TFunction, False)"
    by (simp add: check_read_def lookup_ImportMetaEnv lookup_global_Object)
  then show ?thesis
    unfolding check_GetEnv_file by (simp add: lookup_ImportMetaEnv)
qed

text \<open>
  Claim C3, amended. When the reference to \<open>vite/client\<close> does not resolve, so that the
  declarations of this file are the only ones in scope, then for every key other than
  \<open>VITE_API_URL\<close> that is not a member of the global interface \<open>Object\<close> the lookup in
  the declared shape finds nothing and the checker rejects \<open>import.meta.env.k\<close> with
  "property does not exist". At run time the same read is no error: on every
  \<open>import.meta\<close> the declared shape admits it returns a value and leaves the state as it
  was.
\<close>

theorem undeclared_keys_rejected:
  assumes "libs ''vite/client'' = None"
      and "k \<noteq> ''VITE_API_URL''"
      and "k \<notin> set (map m_name (i_members global_Object))"
  shows "lookup_member ImportMetaEnv k = None
       \<and> check_stmt (program libs vite_env_d_ts) (GetEnv k)
           = Inl (PropertyDoesNotExist k ''ImportMetaEnv'')
       \<and> (has_type (shapes (program libs vite_env_d_ts)) (import_meta s) (TRef ''ImportMeta'')
            \<longrightarrow> (\<exists>v. exec (GetEnv k) s = (Inr v, s)))"
proof -
  from assms(1) have p: "program libs vite_env_d_ts = declared vite_env_d_ts"
    by (simp add: program_file declared_file)
  have "\<exists>v. exec (GetEnv k) s = (Inr v, s)"
    if "has_type (shapes (declared vite_env_d_ts)) (import_meta s) (TRef ''ImportMeta'')"
  proof -
    from that obtain kvs e where m: "import_meta s = JObj kvs" "map_of kvs ''env'' = Some e"
      and "has_type (shapes (declared vite_env_d_ts)) e (TRef ''ImportMetaEnv'')"
      unfolding has_type_ImportMeta_iff by blast
    then obtain evs where "e = JObj evs"
      unfolding has_type_ImportMetaEnv_iff by blast
    with m show ?thesis by (simp split: option.splits)
  qed
  moreover have "check_stmt (declared vite_env_d_ts) (GetEnv k)
           = Inl (PropertyDoesNotExist k ''ImportMetaEnv'')"
    unfolding check_GetEnv_file using assms(2,3) by (rule check_read_ImportMetaEnv_other)
  ultimately show ?thesis using assms(2) p by (simp add: lookup_ImportMetaEnv)
qed

theorem undeclared_keys_rejected_witness:
  "(\<lambda>n. None :: iface list option) ''vite/client'' = None
   \<and> ''MODE'' \<noteq> ''VITE_API_URL''
   \<and> ''MODE'' \<notin> set (map m_name (i_members global_Object))
   \<and> check_stmt (program (\<lambda>n. None) vite_env_d_ts) (GetEnv ''MODE'')
       = Inl (PropertyDoesNotExist ''MODE'' ''ImportMetaEnv'')
   \<and> has_type (shapes (program (\<lambda>n. None) vite_env_d_ts))
       (JObj [(''env'', JObj [(''VITE_API_URL'', JStr ''/api'')])]) (TRef ''ImportMeta'')
   \<and> fst (exec (GetEnv ''MODE'')
        \<lparr>import_meta = JObj [(''env'', JObj [(''VITE_API_URL'', JStr ''/api'')])], console = []\<rparr>)
       = Inr JUndefined"
proof -
  have l: "(\<lambda>n. None :: iface list option) ''vite/client'' = None" by simp
  have k: "''MODE'' \<noteq> ''VITE_API_URL''" by simp
  have g: "''MODE'' \<notin> set (map m_name (i_members global_Object))"
    by (simp add: global_Object_def)
  have c: "has_type (shapes (program (\<lambda>n. None) vite_env_d_ts))
       (JObj [(''env'', JObj [(''VITE_API_URL'', JStr ''/api'')])]) (TRef ''ImportMeta'')"
    by (simp add: declared_def [symmetric] shapes_file shape_ok_def index_ok_def member_ok_def
          ImportMetaEnv_def ImportMeta_def env_def VITE_API_URL_def)
  from undeclared_keys_rejected [OF l k g,
      of "\<lparr>import_meta = JObj [(''env'', JObj [(''VITE_API_URL'', JStr ''/api'')])], console = []\<rparr>"]
    c g show ?thesis by simp
qed

text \<open>
  Claim C4. When the reference to \<open>vite/client\<close> resolves to a library that declares
  \<open>ImportMetaEnv\<close> itself, the interface the name denotes in the program is the merge of
  the library's interface with the declaration of this file. It keeps every member of
  the library's interface and its index signature, and \<open>VITE_API_URL\<close> is a member as
  declared here. When the library's interface has an index signature, the merged shape
  is open: the checker accepts a read of every key. The library is a parameter; the
  instance below has the members \<open>BASE_URL\<close>, \<open>MODE\<close> and \<open>DEV\<close> and the index signature
  \<open>[key: string]: any\<close>.
\<close>

theorem merged_with_library:
  assumes lib: "libs ''vite/client'' = Some lib"
      and tool: "effective lib ''ImportMetaEnv'' = Inr tool"
      and eff: "effective (program libs vite_env_d_ts) ''ImportMetaEnv'' = Inr d"
  shows "merge_iface tool ImportMetaEnv = Inr d
       \<and> set (i_members d) = insert VITE_API_URL (set (i_members tool))
       \<and> lookup_member d ''VITE_API_URL'' = Some VITE_API_URL
       \<and> i_index d = i_index tool
       \<and> (i_index tool \<noteq> None \<longrightarrow> (\<forall>k. \<exists>r. check_read d k = Inr r))"
proof -
  have "program libs vite_env_d_ts = lib @ [ImportMetaEnv, ImportMeta]"
    by (simp add: program_file lib)
  with eff effective_with_library [OF tool]
  have m: "merge_iface tool ImportMetaEnv = Inr d" by simp
  note parts = merge_with_ImportMetaEnv [OF m]
  have "\<exists>r. check_read d k = Inr r" if "i_index tool \<noteq> None" for k
  proof -
    from that parts(3) obtain t where "i_index d = Some t" by auto
    then show ?thesis by (rule check_read_open)
  qed
  with m parts show ?thesis by blast
qed


theorem merged_with_library_witness:
  "effective
     [\<lparr>i_name = ''ImportMetaEnv'',
       i_members =
         [\<lparr>m_name = ''BASE_URL'', m_readonly = False, m_optional = False, m_type = TString\<rparr>,
          \<lparr>m_name = ''MODE'', m_readonly = False, m_optional = False, m_type = TString\<rparr>,
          \<lparr>m_name = ''DEV'', m_readonly = False, m_optional = False, m_type = TBoolean\<rparr>],
       i_index = Some TAny\<rparr>] ''ImportMetaEnv''
   = Inr \<lparr>i_name = ''ImportMetaEnv'',
       i_members =
         [\<lparr>m_name = ''BASE_URL'', m_readonly = False, m_optional = False, m_type = TString\<rparr>,
          \<lparr>m_name = ''MODE'', m_readonly = False, m_optional = False, m_type = TString\<rparr>,
          \<lparr>m_name = ''DEV'', m_readonly = False, m_optional = False, m_type = TBoolean\<rparr>],
       i_index = Some TAny\<rparr>
   \<and> effective
      (program
        (\<lambda>n. if n = ''vite/client'' then
           Some [\<lparr>i_name = ''ImportMetaEnv'',
              i_members =
                [\<lparr>m_name = ''BASE_URL'', m_readonly = False, m_optional = False, m_type = TString\<rparr>,
                 \<lparr>m_name = ''MODE'', m_readonly = False, m_optional = False, m_type = TString\<rparr>,
                 \<lparr>m_name = ''DEV'', m_readonly = False, m_optional = False, m_type = TBoolean\<rparr>],
              i_index = Some TAny\<rparr>]
         else None)
        vite_env_d_ts) ''ImportMetaEnv''
   = Inr \<lparr>i_name = ''ImportMetaEnv'',
       i_members =
         [\<lparr>m_name = ''BASE_URL'', m_readonly = False, m_optional = False, m_type = TString\<rparr>,
          \<lparr>m_name = ''MODE'', m_readonly = False, m_optional = False, m_type = TString\<rparr>,
          \<lparr>m_name = ''DEV'', m_readonly = False, m_optional = False, m_type = TBoolean\<rparr>,
          VITE_API_URL],
       i_index = Some TAny\<rparr>
   \<and> (\<forall>k. \<exists>r. check_read
        \<lparr>i_name = ''ImportMetaEnv'',
         i_members =
           [\<lparr>m_name = ''BASE_URL'', m_readonly = False, m_optional = False, m_type = TString\<rparr>,
            \<lparr>m_name = ''MODE'', m_readonly = False, m_optional = False, m_type = TString\<rparr>,
            \<lparr>m_name = ''DEV'', m_readonly = False, m_optional = False, m_type = TBoolean\<rparr>,
            VITE_API_URL],
         i_index = Some TAny\<rparr> k = Inr r)"
proof -
  let ?tool = "\<lparr>i_name = ''ImportMetaEnv'',
       i_members =
         [\<lparr>m_name = ''BASE_URL'', m_readonly = False, m_optional = False, m_type = TString\<rparr>,
          \<lparr>m_name = ''MODE'', m_readonly = False, m_optional = False, m_type = TString\<rparr>,
          \<lparr>m_name = ''DEV'', m_readonly = False, m_optional = False, m_type = TBoolean\<rparr>],
       i_index = Some TAny\<rparr>"
  let ?libs = "\<lambda>n. if n = ''vite/client'' then Some [?tool] else None"
  let ?d = "\<lparr>i_name = ''ImportMetaEnv'',
       i_members =
         [\<lparr>m_name = ''BASE_URL'', m_readonly = False, m_optional = False, m_type = TString\<rparr>,
          \<lparr>m_name = ''MODE'', m_readonly = False, m_optional = False, m_type = TString\<rparr>,
          \<lparr>m_name = ''DEV'', m_readonly = False, m_optional = False, m_type = TBoolean\<rparr>,
          VITE_API_URL],
       i_index = Some TAny\<rparr>"
  have l: "?libs ''vite/client'' = Some [?tool]" by simp
  have t: "effective [?tool] ''ImportMetaEnv'' = Inr ?tool"
    by (simp add: effective_def merge_iface_def index_admits_def)
  have e: "effective (program ?libs vite_env_d_ts) ''ImportMetaEnv'' = Inr ?d"
    by (simp add: program_file effective_def merge_iface_def index_admits_def Let_def
          ImportMetaEnv_def ImportMeta_def VITE_API_URL_def env_def)
  from merged_with_library [OF l t e] t e show ?thesis by simp
qed

text \<open>
  Claim C5. Every value of the declared shape \<open>ImportMeta\<close> has an \<open>env\<close> property, and
  the value of that property is admitted by the declared shape \<open>ImportMetaEnv\<close>. No
  statement that the checker accepts against the declarations of the file ends with an
  \<open>import.meta\<close> that the shape does not admit.
\<close>

theorem env_conforms:
  assumes "has_type (shapes (declared vite_env_d_ts)) (import_meta s) (TRef ''ImportMeta'')"
  shows "(\<exists>e. get_prop (import_meta s) ''env'' = Inr e
             \<and> has_type (shapes (declared vite_env_d_ts)) e (TRef ''ImportMetaEnv''))
       \<and> (check_stmt (declared vite_env_d_ts) st = Inr r \<longrightarrow>
            has_type (shapes (declared vite_env_d_ts)) (import_meta (snd (exec st s)))
              (TRef ''ImportMeta''))"
proof -
  from assms obtain kvs e where "import_meta s = JObj kvs" "map_of kvs ''env'' = Some e"
    and "has_type (shapes (declared vite_env_d_ts)) e (TRef ''ImportMetaEnv'')"
    unfolding has_type_ImportMeta_iff by blast
  then have "\<exists>e. get_prop (import_meta s) ''env'' = Inr e
             \<and> has_type (shapes (declared vite_env_d_ts)) e (TRef ''ImportMetaEnv'')"
    by simp
  moreover have "has_type (shapes (declared vite_env_d_ts)) (import_meta (snd (exec st s)))
              (TRef ''ImportMeta'')"
    if "check_stmt (declared vite_env_d_ts) st = Inr r"
    using accepted_keeps_import_meta [OF that, of s] assms by simp
  ultimately show ?thesis by blast
qed

theorem env_conforms_witness:
  "has_type (shapes (declared vite_env_d_ts))
     (import_meta \<lparr>import_meta = JObj [(''env'', JObj [(''VITE_API_URL'', JStr ''/api'')])],
                   console = []\<rparr>) (TRef ''ImportMeta'')
   \<and> check_stmt (declared vite_env_d_ts) (GetEnv ''VITE_API_URL'') = Inr (TString, True)
   \<and> has_type (shapes (declared vite_env_d_ts)) (JObj [(''VITE_API_URL'', JStr ''/api'')])
       (TRef ''ImportMetaEnv'')
   \<and> has_type (shapes (declared vite_env_d_ts))
       (import_meta (snd (exec (GetEnv ''VITE_API_URL'')
          \<lparr>import_meta = JObj [(''env'', JObj [(''VITE_API_URL'', JStr ''/api'')])],
           console = []\<rparr>))) (TRef ''ImportMeta'')"
proof -
  let ?s = "\<lparr>import_meta = JObj [(''env'', JObj [(''VITE_API_URL'', JStr ''/api'')])],
             console = []\<rparr>"
  have c: "has_type (shapes (declared vite_env_d_ts)) (import_meta ?s) (TRef ''ImportMeta'')"
    by (simp add: shapes_file shape_ok_def index_ok_def member_ok_def ImportMetaEnv_def
          ImportMeta_def env_def VITE_API_URL_def)
  have a: "check_stmt (declared vite_env_d_ts) (GetEnv ''VITE_API_URL'') = Inr (TString, True)"
    unfolding check_GetEnv_file by (simp add: check_read_VITE_API_URL)
  from env_conforms [OF c, of "GetEnv ''VITE_API_URL''" "(TString, True)"] a c
  show ?thesis by simp
qed

text \<open>
  Claim C6. Declaring either shape a second time is no conflict and changes nothing:
  each declaration merged with itself is itself, and a program that holds the
  declarations of the file twice gives every name the interface it has in the file
  alone.
\<close>

theorem declarations_merge_with_themselves:
  "merge_iface ImportMetaEnv ImportMetaEnv = Inr ImportMetaEnv
   \<and> merge_iface ImportMeta ImportMeta = Inr ImportMeta
   \<and> (\<forall>n. effective (declared vite_env_d_ts @ declared vite_env_d_ts) n
            = effective (declared vite_env_d_ts) n)"
  by (simp add: merge_self_ImportMetaEnv merge_self_ImportMeta effective_twice)

text \<open>
  Claim C7. The file contributes no statement to execution, so running what it
  contributes throws nothing and returns every state as it was: \<open>import.meta\<close> is not
  loaded, checked or given defaults, and nothing is printed.
\<close>

theorem file_has_no_effect:
  "emit vite_env_d_ts = [] \<and> run (emit vite_env_d_ts) s = (None, s)"
  by (simp add: emit_def vite_env_d_ts_def)



text \<open>
  Claim C9. The member \<open>env\<close> is not optional: the checker gives \<open>import.meta.env\<close>
  the type \<open>ImportMetaEnv\<close> without \<open>undefined\<close>, and on every value of the shape
  \<open>ImportMeta\<close> the read of \<open>env\<close> gives an object, never \<open>undefined\<close> and never an
  error. The property \<open>VITE_API_URL\<close> inside it may still be missing: the value
  \<open>{env: {}}\<close> has the shape, and there the read of \<open>VITE_API_URL\<close> gives \<open>undefined\<close>.
\<close>

theorem env_always_present:
  assumes "has_type (shapes (declared vite_env_d_ts)) m (TRef ''ImportMeta'')"
  shows "\<not> m_optional env
       \<and> check_stmt (declared vite_env_d_ts) (GetMeta ''env'') = Inr (TRef ''ImportMetaEnv'', False)
       \<and> (\<exists>kvs. get_prop m ''env'' = Inr (JObj kvs))
       \<and> get_prop m ''env'' \<noteq> Inr JUndefined
       \<and> has_type (shapes (declared vite_env_d_ts)) (JObj [(''env'', JObj [])]) (TRef ''ImportMeta'')
       \<and> fst (exec (GetEnv ''VITE_API_URL'') \<lparr>import_meta = JObj [(''env'', JObj [])], console = c\<rparr>)
           = Inr JUndefined"
proof -
  from assms obtain kvs e where m: "m = JObj kvs" "map_of kvs ''env'' = Some e"
    and "has_type (shapes (declared vite_env_d_ts)) e (TRef ''ImportMetaEnv'')"
    unfolding has_type_ImportMeta_iff by blast
  then obtain evs where "e = JObj evs"
    unfolding has_type_ImportMetaEnv_iff by blast
  with m have g: "get_prop m ''env'' = Inr (JObj evs)" by simp
  have "check_stmt (declared vite_env_d_ts) (GetMeta ''env'') = Inr (TRef ''ImportMetaEnv'', False)"
    unfolding check_GetMeta_file by (simp add: check_read_env)
  moreover have "has_type (shapes (declared vite_env_d_ts)) (JObj [(''env'', JObj [])])
      (TRef ''ImportMeta'')"
    unfolding has_type_ImportMeta_iff has_type_ImportMetaEnv_iff by simp
  moreover have "\<not> m_optional env" by (simp add: env_def)
  ultimately show ?thesis using g by simp
qed

theorem env_always_present_witness:
  "has_type (shapes (declared vite_env_d_ts)) (JObj [(''env'', JObj [])]) (TRef ''ImportMeta'')
   \<and> get_prop (JObj [(''env'', JObj [])]) ''env'' = Inr (JObj [])
   \<and> get_prop (JObj []) ''VITE_API_URL'' = Inr JUndefined"
proof -
  have c: "has_type (shapes (declared vite_env_d_ts)) (JObj [(''env'', JObj [])])
      (TRef ''ImportMeta'')"
    by (simp add: shapes_file shape_ok_def index_ok_def member_ok_def ImportMetaEnv_def
          ImportMeta_def env_def VITE_API_URL_def)
  from env_always_present [OF c] c show ?thesis by simp
qed

end
